theory Spec2Isabelle
  imports Complex_Main
begin

section \<open>Data model\<close>

text \<open>
  The dashboard of \<^verbatim>\<open>src/main.py\<close> shapes pandas dataframes. A dataframe is modelled
  by the list of its rows, in row order, each row a record of the columns the code
  reads. The \<^verbatim>\<open>float64\<close> columns are modelled by \<^typ>\<open>real\<close>: arithmetic is exact,
  rounding and the special values of IEEE 754 are outside the model. The integer
  columns \<^verbatim>\<open>label\<close> and \<^verbatim>\<open>count\<close> are modelled by \<^typ>\<open>int\<close> (pixel counts
  are far from the 64-bit range).
\<close>

datatype py_error = ValueError | IndexError

record geo =
  lat :: real
  lon :: real

text \<open>A row of the classifier table and of the smoothed output: \<^verbatim>\<open>lat, lon, prob\<close>.\<close>

record sample = geo +
  prob :: real

section \<open>Risk-level filtering (lines 437--456)\<close>

text \<open>\<^verbatim>\<open>LOW, MED, HIGH = 0.04, 0.19, 0.29\<close>\<close>

definition LOW :: real where
  "LOW = 4 / 100"

definition MED :: real where
  "MED = 19 / 100"

definition HIGH :: real where
  "HIGH = 29 / 100"

text \<open>
  The boolean mask that the \<^verbatim>\<open>if risk_level == ... elif ... else\<close> chain applies to
  the \<^verbatim>\<open>prob\<close> column. The radio widget offers \<^verbatim>\<open>All, Low, Medium, High\<close>; the
  final \<^verbatim>\<open>else\<close> branch serves \<^verbatim>\<open>All\<close>.
\<close>

definition risk_mask :: "string \<Rightarrow> real \<Rightarrow> bool" where
  "risk_mask risk_level p =
     (if risk_level = ''High'' then p \<ge> HIGH
      else if risk_level = ''Medium'' then p \<ge> MED \<and> p < HIGH
      else if risk_level = ''Low'' then p \<ge> LOW \<and> p < MED
      else p \<ge> LOW)"

definition risk_filter :: "string \<Rightarrow> sample list \<Rightarrow> sample list" where
  "risk_filter risk_level classifier_df = filter (\<lambda>r. risk_mask risk_level (prob r)) classifier_df"

section \<open>Temporal aggregation (\<^verbatim>\<open>plot_loss_trend\<close>, lines 43--57)\<close>

text \<open>
  A row of the historical loss table as \<^verbatim>\<open>loadHistoricalData\<close> leaves it
  (\<^verbatim>\<open>lat, lon, label, count\<close>), with the column \<^verbatim>\<open>point\<close> that the spatial filter
  adds: \<open>None\<close> while the frame has no such column.
\<close>

record loss_row = geo +
  label :: int
  count :: int
  point :: "(real \<times> real) option"

record dataframe =
  columns :: "string list"
  rows :: "loss_row list"






section \<open>Spatial filter (\<^verbatim>\<open>filter_points_in_polygon\<close>, lines 71--81)\<close>

text \<open>
  The user-drawn GeoJSON feature. The drawing tool offers polygons only and draws no
  holes, so the model keeps the exterior ring of the geometry: the list of its
  \<open>(lon, lat)\<close> coordinate pairs.
\<close>

type_synonym ring = "(real \<times> real) list"

record feature =
  geometry :: ring

text \<open>
  The geometry library is not part of the repository; the two functions the filter calls
  are modelled by their documented behaviour.

  \<^verbatim>\<open>shape\<close> builds the polygon from the ring. No coordinates give the empty polygon. One
  or two coordinate pairs are too few for a linear ring: the constructor raises
  \<^verbatim>\<open>ValueError\<close>. Otherwise a ring whose last pair differs from its first is closed
  implicitly by repeating the first pair (a ring of exactly three pairs is always
  extended). The result is the closed ring.
\<close>

definition close_ring :: "ring \<Rightarrow> ring" where
  "close_ring r = (if length r = 3 \<or> hd r \<noteq> last r then r @ [hd r] else r)"

definition shape :: "ring \<Rightarrow> py_error + ring" where
  "shape r =
     (if r = [] then Inr []
      else if length r < 3 then Inl ValueError
      else Inr (close_ring r))"

text \<open>
  \<^verbatim>\<open>polygon.contains(point)\<close> holds when the point lies in the interior of the polygon;
  a point on the boundary is not contained. For a simple ring the interior is given by
  the even-odd rule: a ray from the point towards larger \<open>x\<close> crosses the boundary an
  odd number of times.
\<close>

definition on_segment :: "real \<times> real \<Rightarrow> real \<times> real \<Rightarrow> real \<times> real \<Rightarrow> bool" where
  "on_segment a b p =
     ((fst b - fst a) * (snd p - snd a) = (snd b - snd a) * (fst p - fst a)
      \<and> min (fst a) (fst b) \<le> fst p \<and> fst p \<le> max (fst a) (fst b)
      \<and> min (snd a) (snd b) \<le> snd p \<and> snd p \<le> max (snd a) (snd b))"

definition ray_crosses :: "real \<times> real \<Rightarrow> real \<times> real \<Rightarrow> real \<times> real \<Rightarrow> bool" where
  "ray_crosses a b p =
     ((snd p < snd a) \<noteq> (snd p < snd b)
      \<and> fst p < fst a + (snd p - snd a) * (fst b - fst a) / (snd b - snd a))"

definition ring_edges :: "ring \<Rightarrow> ((real \<times> real) \<times> (real \<times> real)) list" where
  "ring_edges r = zip r (tl r)"

definition contains :: "ring \<Rightarrow> real \<times> real \<Rightarrow> bool" where
  "contains polygon p =
     (\<not> list_ex (\<lambda>(a, b). on_segment a b p) (ring_edges polygon)
      \<and> odd (length (filter (\<lambda>(a, b). ray_crosses a b p) (ring_edges polygon))))"

text \<open>
  The filter. \<^verbatim>\<open>df["point"] = df.apply(...)\<close> assigns to the caller's frame: the column
  \<^verbatim>\<open>point\<close> is added to it (or overwritten), each row getting \<^verbatim>\<open>Point(lon, lat)\<close>. The
  result is the copy of the rows whose point the polygon contains. The model returns the
  caller's frame as the call leaves it, and the result or the error raised. \<^verbatim>\<open>shape\<close>
  is called first, so when it raises the frame is untouched. (A row-wise \<^verbatim>\<open>apply\<close> over a
  frame with no rows is taken to give no points.)
\<close>

definition assign_point :: "dataframe \<Rightarrow> dataframe" where
  "assign_point df =
     df\<lparr>columns := (if ''point'' \<in> set (columns df) then columns df
                     else columns df @ [''point'']),
        rows := map (\<lambda>row. row\<lparr>point := Some (lon row, lat row)\<rparr>) (rows df)\<rparr>"

definition filter_points_in_polygon ::
  "dataframe \<Rightarrow> feature \<Rightarrow> dataframe \<times> (py_error + dataframe)" where
  "filter_points_in_polygon df geojson_polygon =
     (case shape (geometry geojson_polygon) of
        Inl e \<Rightarrow> (df, Inl e)
      | Inr polygon \<Rightarrow>
          (let df' = assign_point df;
               filtered_df = df'\<lparr>rows := filter (\<lambda>row. case point row of
                                                      Some pt \<Rightarrow> contains polygon pt
                                                    | None \<Rightarrow> False) (rows df')\<rparr>
           in (df', Inr filtered_df)))"

section \<open>Grid smoothing (\<^verbatim>\<open>apply_smoothing\<close>, lines 194--230)\<close>

subsection \<open>Numeric coercion\<close>

text \<open>
  A cell of the raw classifier table: a number (or text that \<^verbatim>\<open>pd.to_numeric\<close> parses
  to one), a missing value, or text that is not a number.
\<close>

datatype cell = Num real | Missing | NonNumeric

record raw_row =
  raw_lat :: cell
  raw_lon :: cell
  raw_prob :: cell

definition isna :: "cell \<Rightarrow> bool" where
  "isna c = (c = Missing)"

text \<open>\<^verbatim>\<open>df.dropna(subset=["lat", "lon", "prob"])\<close>\<close>

definition dropna :: "raw_row list \<Rightarrow> raw_row list" where
  "dropna df = filter (\<lambda>r. \<not> isna (raw_lat r) \<and> \<not> isna (raw_lon r) \<and> \<not> isna (raw_prob r)) df"

text \<open>\<^verbatim>\<open>pd.to_numeric(..., errors="coerce")\<close>: what does not parse becomes missing.\<close>

definition to_numeric :: "cell \<Rightarrow> cell" where
  "to_numeric c = (case c of Num x \<Rightarrow> Num x | Missing \<Rightarrow> Missing | NonNumeric \<Rightarrow> Missing)"

text \<open>\<^verbatim>\<open>.values\<close> of a column without missing values (the other cases do not occur).\<close>

definition cell_value :: "cell \<Rightarrow> real" where
  "cell_value c = (case c of Num x \<Rightarrow> x | Missing \<Rightarrow> 0 | NonNumeric \<Rightarrow> 0)"

text \<open>Lines 195--199, and the three columns read as numbers.\<close>

definition coerce :: "raw_row list \<Rightarrow> sample list" where
  "coerce df0 =
     (let df = dropna df0;
          df = map (\<lambda>r. \<lparr>raw_lat = to_numeric (raw_lat r), raw_lon = to_numeric (raw_lon r),
                          raw_prob = to_numeric (raw_prob r)\<rparr>) df;
          df = dropna df
      in map (\<lambda>r. \<lparr>lat = cell_value (raw_lat r), lon = cell_value (raw_lon r),
                     prob = cell_value (raw_prob r)\<rparr>) df)"

subsection \<open>The array library\<close>

text \<open>
  The array functions are not part of the repository; they are modelled by their
  documented behaviour, over exact reals.

  \<^verbatim>\<open>np.linspace(start, stop, num)\<close>: \<open>num\<close> evenly spaced values, the last one set to
  \<open>stop\<close>.
\<close>

definition linspace :: "real \<Rightarrow> real \<Rightarrow> nat \<Rightarrow> real list" where
  "linspace start stop num =
     (if num = 1 then [start]
      else map (\<lambda>i. if i = num - 1 then stop
                     else start + real i * ((stop - start) / real (num - 1))) [0..<num])"

text \<open>
  \<^verbatim>\<open>np.searchsorted(edges, x, side='right')\<close> on ascending edges: the number of edges
  that are at most \<open>x\<close>.
\<close>

definition searchsorted_right :: "real list \<Rightarrow> real \<Rightarrow> nat" where
  "searchsorted_right edges x = length (filter (\<lambda>e. e \<le> x) edges)"

text \<open>
  The bin of a value in \<^verbatim>\<open>np.histogram2d\<close> with explicit edges: bins are closed on the
  left and open on the right, except that a value equal to the last edge is shifted one
  bin to the left, into the last bin. A value outside all bins is an outlier and is not
  counted (\<open>None\<close>).
\<close>

definition bin_index :: "real list \<Rightarrow> real \<Rightarrow> nat option" where
  "bin_index edges x =
     (let k = searchsorted_right edges x;
          k = (if x = last edges then k - 1 else k)
      in if 1 \<le> k \<and> k < length edges then Some (k - 1) else None)"

text \<open>
  \<^verbatim>\<open>np.histogram2d(x, y, bins=[xedges, yedges], weights=w)\<close>: cell \<open>(i, j)\<close> holds the
  sum of the weights of the samples whose \<open>x\<close> is in bin \<open>i\<close> and whose \<open>y\<close> is in bin
  \<open>j\<close>. Without weights every sample weighs one.
\<close>

definition histogram2d ::
  "real list \<Rightarrow> real list \<Rightarrow> real list \<Rightarrow> real list \<Rightarrow> real list \<Rightarrow> real list list" where
  "histogram2d x y xedges yedges weights =
     map (\<lambda>i. map (\<lambda>j. sum_list (map (\<lambda>(a, b, w). w)
                          (filter (\<lambda>(a, b, w). bin_index xedges a = Some i \<and> bin_index yedges b = Some j)
                             (zip x (zip y weights)))))
                 [0..<length yedges - 1])
       [0..<length xedges - 1]"

text \<open>
  \<^verbatim>\<open>np.divide(a, b, out=np.zeros_like(a), where=b != 0)\<close>: the quotient where the mask
  holds, the zero of \<^verbatim>\<open>out\<close> elsewhere.
\<close>

definition divide_where :: "real list list \<Rightarrow> real list list \<Rightarrow> real list list" where
  "divide_where a b =
     map (\<lambda>(ra, rb). map (\<lambda>(s, c). if c \<noteq> 0 then s / c else 0) (zip ra rb)) (zip a b)"

text \<open>
  \<^verbatim>\<open>gaussian_filter(input, sigma=1.5)\<close> filters along axis 0, then along axis 1, each
  time correlating every line with the normalised Gaussian kernel of radius
  \<open>int(4.0 * 1.5 + 0.5) = 6\<close>; beyond its ends a line is continued by reflection
  (\<^verbatim>\<open>mode='reflect'\<close>, \<^verbatim>\<open>dcba|abcd|dcba\<close>).
\<close>

definition gaussian_kernel1d :: "real \<Rightarrow> int \<Rightarrow> real list" where
  "gaussian_kernel1d sigma radius =
     (let phi_x = map (\<lambda>x. exp (- 0.5 / (sigma * sigma) * (real_of_int x)\<^sup>2)) [- radius..radius]
      in map (\<lambda>p. p / sum_list phi_x) phi_x)"

definition reflect :: "nat \<Rightarrow> int \<Rightarrow> nat" where
  "reflect n i =
     (let m = i mod (2 * int n) in if m < int n then nat m else nat (2 * int n - 1 - m))"

definition correlate1d :: "real list \<Rightarrow> real list \<Rightarrow> real list" where
  "correlate1d line weights =
     map (\<lambda>i. sum_list (map (\<lambda>k. weights ! k
                  * line ! reflect (length line) (int i + int k - int (length weights div 2)))
                [0..<length weights]))
       [0..<length line]"

definition gaussian_filter1d_axis1 :: "real list list \<Rightarrow> real list \<Rightarrow> real list list" where
  "gaussian_filter1d_axis1 a weights = map (\<lambda>row. correlate1d row weights) a"

definition gaussian_filter1d_axis0 :: "real list list \<Rightarrow> real list \<Rightarrow> real list list" where
  "gaussian_filter1d_axis0 a weights =
     map (\<lambda>i. map (\<lambda>j. correlate1d (map (\<lambda>row. row ! j) a) weights ! i) [0..<length (hd a)])
       [0..<length a]"

definition gaussian_filter :: "real list list \<Rightarrow> real list list" where
  "gaussian_filter a =
     (let weights = rev (gaussian_kernel1d 1.5 6)
      in gaussian_filter1d_axis1 (gaussian_filter1d_axis0 a weights) weights)"

subsection \<open>The smoothing engine\<close>

text \<open>The local variables of \<^verbatim>\<open>apply_smoothing\<close>, as functions of the coerced frame.\<close>

definition lat_bins :: "sample list \<Rightarrow> nat \<Rightarrow> real list" where
  "lat_bins df resolution = linspace (Min (set (map lat df))) (Max (set (map lat df))) resolution"

definition lon_bins :: "sample list \<Rightarrow> nat \<Rightarrow> real list" where
  "lon_bins df resolution = linspace (Min (set (map lon df))) (Max (set (map lon df))) resolution"

definition heatmap_grid :: "sample list \<Rightarrow> nat \<Rightarrow> real list list" where
  "heatmap_grid df resolution =
     histogram2d (map lat df) (map lon df) (lat_bins df resolution) (lon_bins df resolution)
       (map prob df)"

definition counts :: "sample list \<Rightarrow> nat \<Rightarrow> real list list" where
  "counts df resolution =
     histogram2d (map lat df) (map lon df) (lat_bins df resolution) (lon_bins df resolution)
       (map (\<lambda>r. 1) df)"

definition avg_probs :: "sample list \<Rightarrow> nat \<Rightarrow> real list list" where
  "avg_probs df resolution = divide_where (heatmap_grid df resolution) (counts df resolution)"

definition smoothed_probs :: "sample list \<Rightarrow> nat \<Rightarrow> real list list" where
  "smoothed_probs df resolution = gaussian_filter (avg_probs df resolution)"

text \<open>\<^verbatim>\<open>(bins[:-1] + bins[1:]) / 2\<close>\<close>

definition centers :: "real list \<Rightarrow> real list" where
  "centers bins = map (\<lambda>(a, b). (a + b) / 2) (zip (butlast bins) (tl bins))"

text \<open>The two nested loops over \<^verbatim>\<open>range(resolution - 1)\<close>.\<close>

definition smoothed_points :: "sample list \<Rightarrow> nat \<Rightarrow> sample list" where
  "smoothed_points df resolution =
     concat (map (\<lambda>i. concat (map (\<lambda>j.
         (if smoothed_probs df resolution ! i ! j > 0
          then [\<lparr>lat = centers (lat_bins df resolution) ! i,
                 lon = centers (lon_bins df resolution) ! j,
                 prob = smoothed_probs df resolution ! i ! j\<rparr>]
          else [])) [0..<resolution - 1])) [0..<resolution - 1])"

text \<open>
  The function. \<^verbatim>\<open>lats.min()\<close> of an empty array raises \<^verbatim>\<open>ValueError\<close>; so does
  \<^verbatim>\<open>np.linspace\<close> for a negative number of samples; with no edges at all
  \<^verbatim>\<open>np.histogram2d\<close> fails reading the last edge.
\<close>

definition apply_smoothing :: "raw_row list \<Rightarrow> int \<Rightarrow> py_error + sample list" where
  "apply_smoothing df0 resolution =
     (let df = coerce df0
      in if df = [] then Inl ValueError
         else if resolution < 0 then Inl ValueError
         else if resolution = 0 then Inl IndexError
         else Inr (smoothed_points df (nat resolution)))"

section \<open>Example inputs\<close>


text \<open>
  The square with corners \<open>(0,0), (0,10), (10,10), (10,0)\<close>, once as the four corners
  (a ring that does not close) and once with the first corner repeated; and the frame
  with samples at \<open>(lon, lat) = (5,5), (15,15), (-1,5)\<close>.
\<close>

definition square_open :: feature where
  "square_open = \<lparr>geometry = [(0, 0), (0, 10), (10, 10), (10, 0)]\<rparr>"

definition square_closed :: feature where
  "square_closed = \<lparr>geometry = [(0, 0), (0, 10), (10, 10), (10, 0), (0, 0)]\<rparr>"

definition example_points :: dataframe where
  "example_points = \<lparr>columns = [''lat'', ''lon'', ''label'', ''count''],
     rows = [\<lparr>lat = 5, lon = 5, label = 1, count = 1, point = None\<rparr>,
             \<lparr>lat = 15, lon = 15, label = 2, count = 1, point = None\<rparr>,
             \<lparr>lat = 5, lon = - 1, label = 3, count = 1, point = None\<rparr>]\<rparr>"

text \<open>
  Raw classifier tables: one with two numeric rows and two rows that coercion drops, and
  one with a single numeric row.
\<close>

definition example_raw :: "raw_row list" where
  "example_raw =
     [\<lparr>raw_lat = Num 0, raw_lon = Num 0, raw_prob = Num (1 / 2)\<rparr>,
      \<lparr>raw_lat = Num 1, raw_lon = Missing, raw_prob = Num 1\<rparr>,
      \<lparr>raw_lat = Num 2, raw_lon = Num 4, raw_prob = Num (1 / 4)\<rparr>,
      \<lparr>raw_lat = Num 1, raw_lon = Num 2, raw_prob = NonNumeric\<rparr>]"

definition example_samples :: "sample list" where
  "example_samples = [\<lparr>lat = 0, lon = 0, prob = 1 / 2\<rparr>, \<lparr>lat = 2, lon = 4, prob = 1 / 4\<rparr>]"

definition single_raw :: "raw_row list" where
  "single_raw = [\<lparr>raw_lat = Num 1, raw_lon = Num 2, raw_prob = Num (1 / 2)\<rparr>]"

definition single_sample :: "sample list" where
  "single_sample = [\<lparr>lat = 1, lon = 2, prob = 1 / 2\<rparr>]"

section \<open>Risk bucketing\<close>

text \<open>
  C8. The thresholds are \<open>LOW = 0.04\<close>, \<open>MED = 0.19\<close>, \<open>HIGH = 0.29\<close>. For every
  probability \<open>p\<close> the Low selection keeps exactly \<open>LOW \<le> p < MED\<close>, the Medium
  selection exactly \<open>MED \<le> p < HIGH\<close>, the High selection exactly \<open>HIGH \<le> p\<close> (so all
  of \<open>[HIGH, 1]\<close>), and the All selection exactly \<open>LOW \<le> p\<close>; a probability below
  \<open>LOW\<close> is kept by no selection. \<open>0.19\<close> is Medium and \<open>0.29\<close> is High.
\<close>

theorem risk_bucketing_thresholds:
  "LOW = 0.04 \<and> MED = 0.19 \<and> HIGH = 0.29
   \<and> risk_mask ''Low'' p = (LOW \<le> p \<and> p < MED)
   \<and> risk_mask ''Medium'' p = (MED \<le> p \<and> p < HIGH)
   \<and> risk_mask ''High'' p = (HIGH \<le> p)
   \<and> risk_mask ''All'' p = (LOW \<le> p)
   \<and> (p < LOW \<longrightarrow> \<not> risk_mask ''Low'' p \<and> \<not> risk_mask ''Medium'' p
          \<and> \<not> risk_mask ''High'' p \<and> \<not> risk_mask ''All'' p)
   \<and> (HIGH \<le> p \<and> p \<le> 1 \<longrightarrow> risk_mask ''High'' p)
   \<and> risk_mask ''Medium'' 0.19 \<and> \<not> risk_mask ''Low'' 0.19 \<and> \<not> risk_mask ''High'' 0.19
   \<and> risk_mask ''High'' 0.29 \<and> \<not> risk_mask ''Medium'' 0.29 \<and> \<not> risk_mask ''Low'' 0.29
   \<and> risk_filter lvl df = filter (\<lambda>r. risk_mask lvl (prob r)) df"
  by (simp add: risk_mask_def risk_filter_def LOW_def MED_def HIGH_def)

theorem risk_bucketing_thresholds_witness:
  "(3 / 100 :: real) < LOW \<and> \<not> risk_mask ''Low'' (3 / 100) \<and> \<not> risk_mask ''Medium'' (3 / 100)
   \<and> \<not> risk_mask ''High'' (3 / 100) \<and> \<not> risk_mask ''All'' (3 / 100)
   \<and> HIGH \<le> (1 / 2 :: real) \<and> (1 / 2 :: real) \<le> 1 \<and> risk_mask ''High'' (1 / 2)"
  using risk_bucketing_thresholds [of "3 / 100"] risk_bucketing_thresholds [of "1 / 2"]
  by (simp add: LOW_def HIGH_def)

section \<open>Temporal aggregation: results\<close>






section \<open>Spatial filter: results\<close>

lemma shape_valid: "3 \<le> length r \<Longrightarrow> shape r = Inr (close_ring r)"
  by (auto simp: shape_def)

lemma rows_assign_point:
  "rows (assign_point df) = map (\<lambda>row. row\<lparr>point := Some (lon row, lat row)\<rparr>) (rows df)"
  by (simp add: assign_point_def)

lemma filter_points_rows:
  "shape (geometry g) = Inr polygon \<Longrightarrow>
   filter_points_in_polygon df g =
     (assign_point df,
      Inr ((assign_point df)\<lparr>rows := map (\<lambda>row. row\<lparr>point := Some (lon row, lat row)\<rparr>)
              (filter (\<lambda>row. contains polygon (lon row, lat row)) (rows df))\<rparr>))"
  by (simp add: filter_points_in_polygon_def Let_def rows_assign_point filter_map o_def)

lemma close_ring_idem: "3 \<le> length r \<Longrightarrow> close_ring (close_ring r) = close_ring r"
  by (cases r) (auto simp: close_ring_def)

lemma length_close_ring: "length r \<le> length (close_ring r)"
  by (simp add: close_ring_def)

text \<open>
  On the closed square the even-odd rule is the open square: the model of
  \<^verbatim>\<open>contains\<close> agrees with the interior there.
\<close>

lemma contains_square:
  "contains [(0, 0), (0, 10), (10, 10), (10, 0), (0, 0)] (x, y)
     = (0 < x \<and> x < 10 \<and> 0 < y \<and> y < 10)"
  apply (simp add: contains_def ring_edges_def on_segment_def ray_crosses_def)
  apply (auto simp: min_def max_def)
  done

lemma close_square_open:
  "close_ring (geometry square_open) = [(0, 0), (0, 10), (10, 10), (10, 0), (0, 0)]"
  by (simp add: close_ring_def square_open_def)

lemma close_square_closed:
  "close_ring (geometry square_closed) = [(0, 0), (0, 10), (10, 10), (10, 0), (0, 0)]"
  by (simp add: close_ring_def square_closed_def)

lemma filter_example_open:
  "filter_points_in_polygon example_points square_open =
     (\<lparr>columns = [''lat'', ''lon'', ''label'', ''count'', ''point''],
       rows = [\<lparr>lat = 5, lon = 5, label = 1, count = 1, point = Some (5, 5)\<rparr>,
               \<lparr>lat = 15, lon = 15, label = 2, count = 1, point = Some (15, 15)\<rparr>,
               \<lparr>lat = 5, lon = - 1, label = 3, count = 1, point = Some (- 1, 5)\<rparr>]\<rparr>,
      Inr \<lparr>columns = [''lat'', ''lon'', ''label'', ''count'', ''point''],
            rows = [\<lparr>lat = 5, lon = 5, label = 1, count = 1, point = Some (5, 5)\<rparr>]\<rparr>)"
proof -
  have s: "shape (geometry square_open) = Inr [(0, 0), (0, 10), (10, 10), (10, 0), (0, 0)]"
    by (simp add: shape_def close_square_open) (simp add: square_open_def)
  show ?thesis
    unfolding filter_points_rows [OF s] contains_square
    by (simp add: example_points_def assign_point_def)
qed

lemma filter_example_closed:
  "filter_points_in_polygon example_points square_closed =
     (\<lparr>columns = [''lat'', ''lon'', ''label'', ''count'', ''point''],
       rows = [\<lparr>lat = 5, lon = 5, label = 1, count = 1, point = Some (5, 5)\<rparr>,
               \<lparr>lat = 15, lon = 15, label = 2, count = 1, point = Some (15, 15)\<rparr>,
               \<lparr>lat = 5, lon = - 1, label = 3, count = 1, point = Some (- 1, 5)\<rparr>]\<rparr>,
      Inr \<lparr>columns = [''lat'', ''lon'', ''label'', ''count'', ''point''],
            rows = [\<lparr>lat = 5, lon = 5, label = 1, count = 1, point = Some (5, 5)\<rparr>]\<rparr>)"
proof -
  have s: "shape (geometry square_closed) = Inr [(0, 0), (0, 10), (10, 10), (10, 0), (0, 0)]"
    by (simp add: shape_def close_square_closed) (simp add: square_closed_def)
  show ?thesis
    unfolding filter_points_rows [OF s] contains_square
    by (simp add: example_points_def assign_point_def)
qed

text \<open>
  C7. For every polygon ring of at least three vertices and every frame of samples, the
  filter returns the rows of the frame, in their order, whose point \<open>(lon, lat)\<close>
  (\<open>lon\<close> as \<open>x\<close>, \<open>lat\<close> as \<open>y\<close>) the polygon contains, each carrying the added
  \<^verbatim>\<open>point\<close> column. For the square with corners \<open>(0,0), (0,10), (10,10), (10,0)\<close>,
  given closed or as its four corners, and samples at \<open>(5,5), (15,15), (-1,5)\<close>, only the
  sample at \<open>(5,5)\<close> is returned; the square contains exactly the points with
  \<open>0 < x < 10\<close> and \<open>0 < y < 10\<close>.
\<close>

theorem spatial_filter_containment:
  "(3 \<le> length (geometry g) \<longrightarrow>
      (\<exists>out. snd (filter_points_in_polygon df g) = Inr out
         \<and> rows out = map (\<lambda>row. row\<lparr>point := Some (lon row, lat row)\<rparr>)
              (filter (\<lambda>row. contains (close_ring (geometry g)) (lon row, lat row)) (rows df))))
   \<and> (\<exists>out. snd (filter_points_in_polygon example_points square_closed) = Inr out
         \<and> map (\<lambda>row. (lon row, lat row)) (rows out) = [(5, 5)])
   \<and> (\<exists>out. snd (filter_points_in_polygon example_points square_open) = Inr out
         \<and> map (\<lambda>row. (lon row, lat row)) (rows out) = [(5, 5)])
   \<and> contains (close_ring (geometry square_closed)) (x, y) = (0 < x \<and> x < 10 \<and> 0 < y \<and> y < 10)"
proof -
  have a: "3 \<le> length (geometry g) \<longrightarrow>
      (\<exists>out. snd (filter_points_in_polygon df g) = Inr out
         \<and> rows out = map (\<lambda>row. row\<lparr>point := Some (lon row, lat row)\<rparr>)
              (filter (\<lambda>row. contains (close_ring (geometry g)) (lon row, lat row)) (rows df)))"
    by (simp add: filter_points_rows [OF shape_valid])
  have b: "\<exists>out. snd (filter_points_in_polygon example_points square_closed) = Inr out
         \<and> map (\<lambda>row. (lon row, lat row)) (rows out) = [(5, 5)]"
    by (simp add: filter_example_closed)
  have c: "\<exists>out. snd (filter_points_in_polygon example_points square_open) = Inr out
         \<and> map (\<lambda>row. (lon row, lat row)) (rows out) = [(5, 5)]"
    by (simp add: filter_example_open)
  have d: "contains (close_ring (geometry square_closed)) (x, y) = (0 < x \<and> x < 10 \<and> 0 < y \<and> y < 10)"
    by (simp only: close_square_closed contains_square)
  from a b c d show ?thesis by blast
qed

theorem spatial_filter_containment_witness:
  "3 \<le> length (geometry square_closed)
   \<and> (\<exists>out. snd (filter_points_in_polygon example_points square_closed) = Inr out
        \<and> rows out = [\<lparr>lat = 5, lon = 5, label = 1, count = 1, point = Some (5, 5)\<rparr>])"
proof -
  have h: "3 \<le> length (geometry square_closed)"
    by (simp add: square_closed_def)
  have f: "filter (\<lambda>row. contains (close_ring (geometry square_closed)) (lon row, lat row))
              (rows example_points)
           = [\<lparr>lat = 5, lon = 5, label = 1, count = 1, point = None\<rparr>]"
    unfolding close_square_closed contains_square by (simp add: example_points_def)
  from spatial_filter_containment [of square_closed example_points] h
  have "\<exists>out. snd (filter_points_in_polygon example_points square_closed) = Inr out
         \<and> rows out = map (\<lambda>row. row\<lparr>point := Some (lon row, lat row)\<rparr>)
              (filter (\<lambda>row. contains (close_ring (geometry square_closed)) (lon row, lat row))
                 (rows example_points))"
    by blast
  with h show ?thesis
    unfolding f by simp
qed

text \<open>
  C3. The filter does not leave its input frame unchanged: the assignment
  \<^verbatim>\<open>df["point"] = ...\<close> adds the column \<^verbatim>\<open>point\<close> to the caller's frame. On the
  example frame, which has the columns \<^verbatim>\<open>lat, lon, label, count\<close>, the frame after the
  call has a fifth column and differs from the frame before it.
\<close>

theorem filter_mutates_input:
  "fst (filter_points_in_polygon example_points square_closed)
     = \<lparr>columns = [''lat'', ''lon'', ''label'', ''count'', ''point''],
        rows = [\<lparr>lat = 5, lon = 5, label = 1, count = 1, point = Some (5, 5)\<rparr>,
                \<lparr>lat = 15, lon = 15, label = 2, count = 1, point = Some (15, 15)\<rparr>,
                \<lparr>lat = 5, lon = - 1, label = 3, count = 1, point = Some (- 1, 5)\<rparr>]\<rparr>
   \<and> fst (filter_points_in_polygon example_points square_closed) \<noteq> example_points
   \<and> columns example_points = [''lat'', ''lon'', ''label'', ''count'']"
  unfolding filter_example_closed by (simp add: example_points_def)

text \<open>
  C2, as stated, fails: the four corners of the square are a ring that does not close,
  and the filter signals nothing; it returns the sample inside the square.
\<close>

theorem unclosed_ring_counterexample:
  "hd (geometry square_open) \<noteq> last (geometry square_open)
   \<and> snd (filter_points_in_polygon example_points square_open)
       = Inr \<lparr>columns = [''lat'', ''lon'', ''label'', ''count'', ''point''],
              rows = [\<lparr>lat = 5, lon = 5, label = 1, count = 1, point = Some (5, 5)\<rparr>]\<rparr>"
  unfolding filter_example_open by (simp add: square_open_def)

text \<open>
  C2, amended. A ring of one or two coordinate pairs makes the filter fail with the
  geometry library's \<^verbatim>\<open>ValueError\<close>, the input frame untouched. A ring of three or more
  pairs is never refused: it is filtered exactly as its implicitly closed form, and a
  result is returned.
\<close>

theorem degenerate_polygon:
  "(length (geometry g) = 1 \<or> length (geometry g) = 2 \<longrightarrow>
      filter_points_in_polygon df g = (df, Inl ValueError))
   \<and> (3 \<le> length (geometry g) \<longrightarrow>
        filter_points_in_polygon df g
          = filter_points_in_polygon df (g\<lparr>geometry := close_ring (geometry g)\<rparr>)
        \<and> (\<exists>out. snd (filter_points_in_polygon df g) = Inr out))"
proof -
  have a: "length (geometry g) = 1 \<or> length (geometry g) = 2 \<longrightarrow>
      filter_points_in_polygon df g = (df, Inl ValueError)"
    by (auto simp: filter_points_in_polygon_def shape_def)
  have b: "3 \<le> length (geometry g) \<longrightarrow>
        filter_points_in_polygon df g
          = filter_points_in_polygon df (g\<lparr>geometry := close_ring (geometry g)\<rparr>)
        \<and> (\<exists>out. snd (filter_points_in_polygon df g) = Inr out)"
  proof
    assume h: "3 \<le> length (geometry g)"
    then have h': "3 \<le> length (close_ring (geometry g))"
      using length_close_ring [of "geometry g"] by linarith
    have "shape (geometry (g\<lparr>geometry := close_ring (geometry g)\<rparr>)) = Inr (close_ring (geometry g))"
      using shape_valid [OF h'] close_ring_idem [OF h] by simp
    then show "filter_points_in_polygon df g
          = filter_points_in_polygon df (g\<lparr>geometry := close_ring (geometry g)\<rparr>)
        \<and> (\<exists>out. snd (filter_points_in_polygon df g) = Inr out)"
      by (simp add: filter_points_rows [OF shape_valid [OF h]] filter_points_rows)
  qed
  from a b show ?thesis by blast
qed

theorem degenerate_polygon_witness:
  "length (geometry \<lparr>geometry = [(0, 0), (1, 1)]\<rparr>) = 2
   \<and> filter_points_in_polygon example_points \<lparr>geometry = [(0, 0), (1, 1)]\<rparr>
       = (example_points, Inl ValueError)
   \<and> 3 \<le> length (geometry square_open)
   \<and> filter_points_in_polygon example_points square_open
       = filter_points_in_polygon example_points square_closed"
  using degenerate_polygon [of "\<lparr>geometry = [(0, 0), (1, 1)]\<rparr>" example_points]
        degenerate_polygon [of square_open example_points]
  by (simp add: close_square_open) (simp add: square_open_def square_closed_def)

section \<open>Grid smoothing: results\<close>

subsection \<open>linspace\<close>

lemma length_linspace: "length (linspace a b n) = n"
  by (simp add: linspace_def)







subsection \<open>bins\<close>







subsection \<open>Histogram cells and the guarded mean\<close>

lemma zip3_map:
  "zip (map f xs) (zip (map g xs) (map h xs)) = map (\<lambda>r. (f r, g r, h r)) xs"
  by (induction xs) auto

lemma histogram2d_nth:
  assumes "i < length xe - 1" "j < length ye - 1"
  shows "histogram2d (map fx df) (map fy df) xe ye (map w df) ! i ! j
     = sum_list (map w (filter (\<lambda>r. bin_index xe (fx r) = Some i \<and> bin_index ye (fy r) = Some j) df))"
  using assms
  by (simp add: histogram2d_def zip3_map filter_map o_def)

lemma length_histogram2d: "length (histogram2d x y xe ye w) = length xe - 1"
  by (simp add: histogram2d_def)

lemma length_histogram2d_row:
  "i < length xe - 1 \<Longrightarrow> length (histogram2d x y xe ye w ! i) = length ye - 1"
  by (simp add: histogram2d_def)

lemma divide_where_nth:
  assumes "i < length a" "length b = length a" "j < length (a ! i)" "length (b ! i) = length (a ! i)"
  shows "divide_where a b ! i ! j = (if b ! i ! j \<noteq> 0 then a ! i ! j / b ! i ! j else 0)"
  using assms by (simp add: divide_where_def)

lemma length_divide_where: "length b = length a \<Longrightarrow> length (divide_where a b) = length a"
  by (simp add: divide_where_def)

lemma length_divide_where_row:
  "i < length a \<Longrightarrow> length b = length a \<Longrightarrow> length (b ! i) = length (a ! i) \<Longrightarrow>
   length (divide_where a b ! i) = length (a ! i)"
  by (simp add: divide_where_def)

lemma length_lat_bins: "length (lat_bins df n) = n"
  by (simp add: lat_bins_def length_linspace)

lemma length_lon_bins: "length (lon_bins df n) = n"
  by (simp add: lon_bins_def length_linspace)

lemma heatmap_grid_nth:
  assumes "i < n - 1" "j < n - 1"
  shows "heatmap_grid df n ! i ! j
     = sum_list (map prob (filter (\<lambda>r. bin_index (lat_bins df n) (lat r) = Some i
                                        \<and> bin_index (lon_bins df n) (lon r) = Some j) df))"
  unfolding heatmap_grid_def
  by (rule histogram2d_nth) (use assms in \<open>simp_all add: length_lat_bins length_lon_bins\<close>)

lemma counts_nth:
  assumes "i < n - 1" "j < n - 1"
  shows "counts df n ! i ! j
     = real (length (filter (\<lambda>r. bin_index (lat_bins df n) (lat r) = Some i
                                   \<and> bin_index (lon_bins df n) (lon r) = Some j) df))"
proof -
  have "counts df n ! i ! j
     = sum_list (map (\<lambda>r. 1) (filter (\<lambda>r. bin_index (lat_bins df n) (lat r) = Some i
                                        \<and> bin_index (lon_bins df n) (lon r) = Some j) df))"
    unfolding counts_def
    by (rule histogram2d_nth) (use assms in \<open>simp_all add: length_lat_bins length_lon_bins\<close>)
  then show ?thesis by (simp add: sum_list_triv)
qed

lemma length_heatmap_grid: "length (heatmap_grid df n) = n - 1"
  by (simp add: heatmap_grid_def length_histogram2d length_lat_bins)

lemma length_counts: "length (counts df n) = n - 1"
  by (simp add: counts_def length_histogram2d length_lat_bins)

lemma length_heatmap_grid_row: "i < n - 1 \<Longrightarrow> length (heatmap_grid df n ! i) = n - 1"
  by (simp add: heatmap_grid_def length_histogram2d_row length_lat_bins length_lon_bins)

lemma length_counts_row: "i < n - 1 \<Longrightarrow> length (counts df n ! i) = n - 1"
  by (simp add: counts_def length_histogram2d_row length_lat_bins length_lon_bins)

lemma avg_probs_nth:
  assumes "i < n - 1" "j < n - 1"
  shows "avg_probs df n ! i ! j
     = (if counts df n ! i ! j \<noteq> 0 then heatmap_grid df n ! i ! j / counts df n ! i ! j else 0)"
  unfolding avg_probs_def
  by (rule divide_where_nth)
     (use assms in \<open>simp_all add: length_heatmap_grid length_counts length_heatmap_grid_row
        length_counts_row\<close>)

lemma length_avg_probs: "length (avg_probs df n) = n - 1"
  by (simp add: avg_probs_def length_divide_where length_heatmap_grid length_counts)

lemma length_avg_probs_row: "i < n - 1 \<Longrightarrow> length (avg_probs df n ! i) = n - 1"
  by (simp add: avg_probs_def length_divide_where_row length_heatmap_grid length_counts
      length_heatmap_grid_row length_counts_row)

text \<open>The example tables, evaluated.\<close>

lemma coerce_example_raw: "coerce example_raw = example_samples"
  by (simp add: coerce_def example_raw_def example_samples_def dropna_def isna_def to_numeric_def
      cell_value_def)

lemma coerce_single_raw: "coerce single_raw = single_sample"
  by (simp add: coerce_def single_raw_def single_sample_def dropna_def isna_def to_numeric_def
      cell_value_def)







text \<open>
  C1. On an input that is empty after coercion the engine does not return an empty
  collection: \<^verbatim>\<open>lats.min()\<close> at line 205 raises \<^verbatim>\<open>ValueError\<close>. This is so for the
  empty table and for a table whose rows are all dropped by the coercion.
\<close>

theorem empty_input_raises:
  "apply_smoothing [] 300 = Inl ValueError
   \<and> coerce [\<lparr>raw_lat = Num 1, raw_lon = Missing, raw_prob = Num 1\<rparr>,
              \<lparr>raw_lat = Num 1, raw_lon = Num 2, raw_prob = NonNumeric\<rparr>] = []
   \<and> apply_smoothing [\<lparr>raw_lat = Num 1, raw_lon = Missing, raw_prob = Num 1\<rparr>,
                       \<lparr>raw_lat = Num 1, raw_lon = Num 2, raw_prob = NonNumeric\<rparr>] 300
       = Inl ValueError"
  by (simp add: apply_smoothing_def coerce_def dropna_def isna_def to_numeric_def)

subsection \<open>Binning coverage\<close>














subsection \<open>The Gaussian kernel and the filter\<close>

lemma sum_list_pos_real:
  "xs \<noteq> [] \<Longrightarrow> \<forall>x \<in> set xs. 0 < x \<Longrightarrow> 0 < sum_list (xs :: real list)"
proof (induction xs)
  case Nil
  then show ?case by simp
next
  case (Cons x xs)
  then show ?case by (cases xs) (auto intro: add_pos_pos)
qed

lemma kernel_sum:
  assumes "0 \<le> radius"
  shows "sum_list (gaussian_kernel1d sigma radius) = 1"
proof -
  let ?phi = "map (\<lambda>x. exp (- 0.5 / (sigma * sigma) * (real_of_int x)\<^sup>2)) [- radius..radius]"
  have ne: "?phi \<noteq> []" using assms by (simp add: upto_rec1)
  have "\<forall>p \<in> set ?phi. 0 < p" by auto
  from sum_list_pos_real [OF ne this] have pos: "0 < sum_list ?phi" .
  have "sum_list (map (\<lambda>p. p / sum_list ?phi) ?phi) = sum_list (map (\<lambda>p. p) ?phi) / sum_list ?phi"
    unfolding divide_inverse by (rule sum_list_mult_const)
  also have "\<dots> = 1" using pos by simp
  finally show ?thesis by (simp add: gaussian_kernel1d_def Let_def)
qed

lemma kernel_nonneg: "\<forall>w \<in> set (gaussian_kernel1d sigma radius). 0 \<le> w"
proof -
  let ?phi = "map (\<lambda>x. exp (- 0.5 / (sigma * sigma) * (real_of_int x)\<^sup>2)) [- radius..radius]"
  have "\<forall>p \<in> set ?phi. 0 \<le> p" by auto
  then have "0 \<le> sum_list ?phi" by (intro sum_list_nonneg) auto
  then show ?thesis by (auto simp: gaussian_kernel1d_def Let_def)
qed

lemma reflect_less: "0 < n \<Longrightarrow> reflect n z < n"
proof -
  assume n: "0 < n"
  have "0 \<le> z mod (2 * int n)" "z mod (2 * int n) < 2 * int n"
    using n by simp_all
  then show ?thesis by (auto simp: reflect_def Let_def)
qed

lemma weighted_sum_bounds:
  assumes w: "\<forall>w \<in> set ws. (0::real) \<le> w" and s: "sum_list ws = 1"
    and f: "\<forall>k < length ws. lo \<le> f k \<and> f k \<le> hi"
  shows "lo \<le> (\<Sum>k\<leftarrow>[0..<length ws]. ws ! k * f k) \<and> (\<Sum>k\<leftarrow>[0..<length ws]. ws ! k * f k) \<le> hi"
proof -
  have c: "(\<Sum>k\<leftarrow>[0..<length ws]. ws ! k * c) = c" for c
  proof -
    have "(\<Sum>k\<leftarrow>[0..<length ws]. ws ! k * c) = sum_list (map (\<lambda>k. ws ! k) [0..<length ws]) * c"
      by (rule sum_list_mult_const)
    then show ?thesis by (simp add: map_nth s)
  qed
  have "(\<Sum>k\<leftarrow>[0..<length ws]. ws ! k * lo) \<le> (\<Sum>k\<leftarrow>[0..<length ws]. ws ! k * f k)"
    by (rule sum_list_mono) (use w f in \<open>auto intro!: mult_left_mono\<close>)
  moreover have "(\<Sum>k\<leftarrow>[0..<length ws]. ws ! k * f k) \<le> (\<Sum>k\<leftarrow>[0..<length ws]. ws ! k * hi)"
    by (rule sum_list_mono) (use w f in \<open>auto intro!: mult_left_mono\<close>)
  ultimately show ?thesis by (simp add: c)
qed

lemma length_correlate1d: "length (correlate1d line ws) = length line"
  by (simp add: correlate1d_def)

lemma correlate1d_bounds:
  assumes w: "\<forall>w \<in> set ws. 0 \<le> w" and s: "sum_list ws = 1"
    and b: "\<forall>x \<in> set line. lo \<le> x \<and> x \<le> hi" and i: "i < length line"
  shows "lo \<le> correlate1d line ws ! i \<and> correlate1d line ws ! i \<le> hi"
proof -
  have n: "0 < length line" using i by auto
  have "\<forall>k < length ws. lo \<le> line ! reflect (length line) (int i + int k - int (length ws div 2))
          \<and> line ! reflect (length line) (int i + int k - int (length ws div 2)) \<le> hi"
    using b reflect_less [OF n] by (simp add: nth_mem)
  from weighted_sum_bounds [OF w s this] show ?thesis
    using i by (simp add: correlate1d_def)
qed

lemma correlate1d_single:
  assumes "sum_list ws = 1" shows "correlate1d [v] ws = [v]"
proof -
  have r: "reflect (Suc 0) z = 0" for z
    using reflect_less [of 1 z] by simp
  have "(\<Sum>k\<leftarrow>[0..<length ws]. ws ! k * v) = sum_list (map (\<lambda>k. ws ! k) [0..<length ws]) * v"
    by (rule sum_list_mult_const)
  then have "(\<Sum>k\<leftarrow>[0..<length ws]. ws ! k * v) = v"
    by (simp add: map_nth assms)
  then show ?thesis by (simp add: correlate1d_def r)
qed

lemma weights_facts:
  "\<forall>w \<in> set (rev (gaussian_kernel1d (3 / 2) 6)). 0 \<le> w"
  "sum_list (rev (gaussian_kernel1d (3 / 2) 6)) = 1"
  using kernel_nonneg [of "3 / 2" 6] kernel_sum [of 6 "3 / 2"] by (simp_all add: sum_list_rev)

lemma gaussian_filter_eq:
  "gaussian_filter a =
     gaussian_filter1d_axis1 (gaussian_filter1d_axis0 a (rev (gaussian_kernel1d (3 / 2) 6)))
       (rev (gaussian_kernel1d (3 / 2) 6))"
  by (simp add: gaussian_filter_def Let_def)

lemma gaussian_filter_single: "gaussian_filter [[v]] = [[v]]"
  by (simp add: gaussian_filter_eq gaussian_filter1d_axis0_def gaussian_filter1d_axis1_def
      correlate1d_single [OF weights_facts(2)])

lemma length_gaussian_filter: "length (gaussian_filter a) = length a"
  by (simp add: gaussian_filter_eq gaussian_filter1d_axis0_def gaussian_filter1d_axis1_def)

lemma gaussian_filter_bounds:
  assumes rect: "\<forall>row \<in> set a. length row = m"
    and bnd: "\<forall>row \<in> set a. \<forall>x \<in> set row. lo \<le> x \<and> x \<le> hi"
    and i: "i < length a" and j: "j < m"
  shows "lo \<le> gaussian_filter a ! i ! j \<and> gaussian_filter a ! i ! j \<le> hi"
proof -
  let ?ws = "rev (gaussian_kernel1d (3 / 2) 6)"
  let ?a0 = "gaussian_filter1d_axis0 a ?ws"
  have ne: "a \<noteq> []" using i by auto
  then have hd: "length (hd a) = m" using rect by simp
  have col: "\<forall>x \<in> set (map (\<lambda>row. row ! j') a). lo \<le> x \<and> x \<le> hi" if "j' < m" for j'
    using that rect bnd by (auto simp: nth_mem)
  have a0: "lo \<le> ?a0 ! i' ! j' \<and> ?a0 ! i' ! j' \<le> hi" if "i' < length a" "j' < m" for i' j'
    using correlate1d_bounds [OF weights_facts col [OF that(2)], of i'] that hd
    by (simp add: gaussian_filter1d_axis0_def)
  have len0: "length (?a0 ! i) = m"
    using i hd by (simp add: gaussian_filter1d_axis0_def)
  have "\<forall>x \<in> set (?a0 ! i). lo \<le> x \<and> x \<le> hi"
    using a0 [OF i] len0 by (auto simp: in_set_conv_nth)
  from correlate1d_bounds [OF weights_facts this, of j] len0 j
  have "lo \<le> correlate1d (?a0 ! i) ?ws ! j \<and> correlate1d (?a0 ! i) ?ws ! j \<le> hi"
    by simp
  moreover have "gaussian_filter a ! i = correlate1d (?a0 ! i) ?ws"
    using i by (simp add: gaussian_filter_eq gaussian_filter1d_axis1_def
        gaussian_filter1d_axis0_def)
  ultimately show ?thesis by simp
qed

subsection \<open>The emitted points\<close>

lemma concat_map_if:
  "concat (map (\<lambda>j. if P j then [f j] else []) js) = map f (filter P js)"
  by (induction js) auto

lemma product_concat:
  "map (\<lambda>(i, j). f i j) (filter (\<lambda>(i, j). P i j) (List.product is js))
     = concat (map (\<lambda>i. map (f i) (filter (P i) js)) is)"
  by (induction "is") (auto simp: filter_map o_def)

lemma centers_nth:
  assumes "i < length bins - 1"
  shows "centers bins ! i = (bins ! i + bins ! Suc i) / 2"
  using assms by (simp add: centers_def nth_butlast nth_tl)

lemma smoothed_points_eq:
  "smoothed_points df n =
     map (\<lambda>(i, j). \<lparr>lat = (lat_bins df n ! i + lat_bins df n ! Suc i) / 2,
                     lon = (lon_bins df n ! j + lon_bins df n ! Suc j) / 2,
                     prob = smoothed_probs df n ! i ! j\<rparr>)
       (filter (\<lambda>(i, j). 0 < smoothed_probs df n ! i ! j) (List.product [0..<n - 1] [0..<n - 1]))"
proof -
  have "smoothed_points df n =
     map (\<lambda>(i, j). \<lparr>lat = centers (lat_bins df n) ! i, lon = centers (lon_bins df n) ! j,
                     prob = smoothed_probs df n ! i ! j\<rparr>)
       (filter (\<lambda>(i, j). 0 < smoothed_probs df n ! i ! j) (List.product [0..<n - 1] [0..<n - 1]))"
    unfolding smoothed_points_def concat_map_if product_concat ..
  also have "\<dots> = map (\<lambda>(i, j). \<lparr>lat = (lat_bins df n ! i + lat_bins df n ! Suc i) / 2,
                     lon = (lon_bins df n ! j + lon_bins df n ! Suc j) / 2,
                     prob = smoothed_probs df n ! i ! j\<rparr>)
       (filter (\<lambda>(i, j). 0 < smoothed_probs df n ! i ! j) (List.product [0..<n - 1] [0..<n - 1]))"
    by (rule map_cong) (auto simp: centers_nth length_lat_bins length_lon_bins)
  finally show ?thesis .
qed

lemma apply_smoothing_ok:
  "coerce df0 \<noteq> [] \<Longrightarrow> 1 \<le> resolution \<Longrightarrow>
   apply_smoothing df0 resolution = Inr (smoothed_points (coerce df0) (nat resolution))"
  by (simp add: apply_smoothing_def Let_def)

lemma length_smoothed_points: "length (smoothed_points df n) \<le> (n - 1) * (n - 1)"
proof -
  have "length (smoothed_points df n) \<le> length (List.product [0..<n - 1] [0..<n - 1])"
    unfolding smoothed_points_eq length_map by (rule length_filter_le)
  then show ?thesis by simp
qed

text \<open>
  C5. For every input that is non-empty after coercion and every resolution of at least
  one, the engine returns the list that has one point for each grid cell \<open>(i, j)\<close>
  whose smoothed value is greater than zero, in row-major order and no cell twice, the
  point lying at the middle of the cell's two bins and carrying the smoothed value. So
  every emitted probability is positive and there are at most \<open>(resolution - 1)\<^sup>2\<close>
  points.
\<close>

theorem emitted_points:
  assumes "coerce df0 \<noteq> []" "1 \<le> resolution"
  shows "\<exists>out. apply_smoothing df0 resolution = Inr out
      \<and> out = map (\<lambda>(i, j).
                 \<lparr>lat = (lat_bins (coerce df0) (nat resolution) ! i
                          + lat_bins (coerce df0) (nat resolution) ! Suc i) / 2,
                  lon = (lon_bins (coerce df0) (nat resolution) ! j
                          + lon_bins (coerce df0) (nat resolution) ! Suc j) / 2,
                  prob = smoothed_probs (coerce df0) (nat resolution) ! i ! j\<rparr>)
               (filter (\<lambda>(i, j). 0 < smoothed_probs (coerce df0) (nat resolution) ! i ! j)
                  (List.product [0..<nat resolution - 1] [0..<nat resolution - 1]))
      \<and> distinct (filter (\<lambda>(i, j). 0 < smoothed_probs (coerce df0) (nat resolution) ! i ! j)
                  (List.product [0..<nat resolution - 1] [0..<nat resolution - 1]))
      \<and> (\<forall>p \<in> set out. 0 < prob p)
      \<and> int (length out) \<le> (resolution - 1)\<^sup>2"
proof -
  let ?out = "smoothed_points (coerce df0) (nat resolution)"
  have a: "apply_smoothing df0 resolution = Inr ?out"
    by (rule apply_smoothing_ok [OF assms])
  have c: "distinct (filter (\<lambda>(i, j). 0 < smoothed_probs (coerce df0) (nat resolution) ! i ! j)
                  (List.product [0..<nat resolution - 1] [0..<nat resolution - 1]))"
    by (simp add: distinct_product)
  have d: "\<forall>p \<in> set ?out. 0 < prob p"
    unfolding smoothed_points_eq by auto
  have "int (length ?out) \<le> int ((nat resolution - 1) * (nat resolution - 1))"
    using length_smoothed_points [of "coerce df0" "nat resolution"] by linarith
  also have "\<dots> = (resolution - 1)\<^sup>2"
    using assms(2) by (simp add: power2_eq_square nat_diff_distrib' of_nat_diff)
  finally have e: "int (length ?out) \<le> (resolution - 1)\<^sup>2" .
  show ?thesis
    using a smoothed_points_eq [of "coerce df0" "nat resolution"] c d e by blast
qed

lemma bins_single:
  "lat_bins single_sample 2 = [1, 1]" "lon_bins single_sample 2 = [2, 2]"
  by (simp_all add: lat_bins_def lon_bins_def single_sample_def linspace_def upt_rec)

lemma avg_probs_single: "avg_probs single_sample 2 = [[1 / 2]]"
proof -
  have h: "heatmap_grid single_sample 2 = [[1 / 2]]" "counts single_sample 2 = [[1]]"
    unfolding heatmap_grid_def counts_def bins_single
    by (simp_all add: single_sample_def histogram2d_def bin_index_def searchsorted_right_def)
  show ?thesis
    unfolding avg_probs_def h by (simp add: divide_where_def)
qed

lemma smoothed_single: "smoothed_points single_sample 2 = [\<lparr>lat = 1, lon = 2, prob = 1 / 2\<rparr>]"
proof -
  have s: "smoothed_probs single_sample 2 = [[1 / 2]]"
    by (simp add: smoothed_probs_def gaussian_filter_single avg_probs_single)
  show ?thesis
    unfolding smoothed_points_def s bins_single by (simp add: centers_def)
qed

theorem emitted_points_witness:
  "coerce single_raw \<noteq> [] \<and> (1::int) \<le> 2
   \<and> apply_smoothing single_raw 2 = Inr [\<lparr>lat = 1, lon = 2, prob = 1 / 2\<rparr>]
   \<and> (0::real) < prob \<lparr>lat = 1, lon = 2, prob = 1 / 2\<rparr>
   \<and> int (length [\<lparr>lat = 1, lon = 2, prob = 1 / 2\<rparr>]) \<le> (2 - 1)\<^sup>2"
proof -
  have h: "coerce single_raw \<noteq> []" "(1::int) \<le> 2"
    by (simp_all add: coerce_single_raw single_sample_def)
  from emitted_points [OF h] obtain out where
    "apply_smoothing single_raw 2 = Inr out" by blast
  moreover have "apply_smoothing single_raw 2 = Inr [\<lparr>lat = 1, lon = 2, prob = 1 / 2\<rparr>]"
    using apply_smoothing_ok [OF h] by (simp add: coerce_single_raw smoothed_single)
  ultimately show ?thesis using h by auto
qed

subsection \<open>Convexity\<close>

lemma sum_list_unit:
  "\<forall>x \<in> set xs. 0 \<le> x \<and> x \<le> 1 \<Longrightarrow> 0 \<le> sum_list xs \<and> sum_list xs \<le> real (length xs)"
  by (induction xs) auto

lemma avg_probs_unit:
  assumes u: "\<forall>r \<in> set df. 0 \<le> prob r \<and> prob r \<le> 1" and ij: "i < n - 1" "j < n - 1"
  shows "0 \<le> avg_probs df n ! i ! j \<and> avg_probs df n ! i ! j \<le> 1"
proof -
  let ?S = "filter (\<lambda>r. bin_index (lat_bins df n) (lat r) = Some i
                         \<and> bin_index (lon_bins df n) (lon r) = Some j) df"
  have "\<forall>x \<in> set (map prob ?S). 0 \<le> x \<and> x \<le> 1" using u by auto
  from sum_list_unit [OF this]
  have b: "0 \<le> sum_list (map prob ?S)" "sum_list (map prob ?S) \<le> real (length ?S)" by simp_all
  show ?thesis
  proof (cases "length ?S = 0")
    case True
    then show ?thesis using ij by (simp add: avg_probs_nth counts_nth)
  next
    case False
    then have "0 < real (length ?S)" by simp
    then have "0 \<le> sum_list (map prob ?S) / real (length ?S)
        \<and> sum_list (map prob ?S) / real (length ?S) \<le> 1"
      using b by simp
    then show ?thesis using ij False by (simp add: avg_probs_nth counts_nth heatmap_grid_nth)
  qed
qed

lemma avg_probs_rows: "\<forall>row \<in> set (avg_probs df n). length row = n - 1"
  by (auto simp: in_set_conv_nth length_avg_probs length_avg_probs_row)

lemma smoothed_probs_bounds:
  assumes bnd: "\<forall>i < n - 1. \<forall>j < n - 1. lo \<le> avg_probs df n ! i ! j \<and> avg_probs df n ! i ! j \<le> hi"
    and ij: "i < n - 1" "j < n - 1"
  shows "lo \<le> smoothed_probs df n ! i ! j \<and> smoothed_probs df n ! i ! j \<le> hi"
proof -
  have "\<forall>row \<in> set (avg_probs df n). \<forall>x \<in> set row. lo \<le> x \<and> x \<le> hi"
  proof (intro ballI)
    fix row x assume "row \<in> set (avg_probs df n)" "x \<in> set row"
    then obtain i' j' where "i' < n - 1" "row = avg_probs df n ! i'" "j' < length row" "x = row ! j'"
      by (auto simp: in_set_conv_nth length_avg_probs)
    then show "lo \<le> x \<and> x \<le> hi"
      using bnd by (simp add: length_avg_probs_row)
  qed
  from gaussian_filter_bounds [OF avg_probs_rows this, of i j] ij
  show ?thesis by (simp add: smoothed_probs_def length_avg_probs)
qed

lemma smoothed_points_cell:
  assumes "p \<in> set (smoothed_points df n)"
  shows "\<exists>i j. i < n - 1 \<and> j < n - 1 \<and> prob p = smoothed_probs df n ! i ! j \<and> 0 < prob p"
  using assms unfolding smoothed_points_eq by fastforce

text \<open>
  The smoothing invariant behind C10, in exact arithmetic, where the kernel weights are
  non-negative and add up to exactly one: every emitted probability is at most the
  largest per-cell mean of the unsmoothed grid; and when all coerced input probabilities
  lie in \<open>[0, 1]\<close>, every emitted probability lies in \<open>(0, 1]\<close>. The program
  computes in \<^verbatim>\<open>float64\<close>, where the normalised weights and each weighted sum are
  rounded, so there the two bounds hold only up to rounding error.
\<close>

theorem smoothing_convex:
  assumes "apply_smoothing df0 resolution = Inr out" "p \<in> set out"
  shows "prob p \<le> Max (set (concat (avg_probs (coerce df0) (nat resolution))))
       \<and> ((\<forall>r \<in> set (coerce df0). 0 \<le> prob r \<and> prob r \<le> 1) \<longrightarrow> 0 < prob p \<and> prob p \<le> 1)"
proof -
  let ?df = "coerce df0" and ?n = "nat resolution"
  let ?A = "set (concat (avg_probs ?df ?n))"
  have out: "out = smoothed_points ?df ?n"
    using assms(1) by (auto simp: apply_smoothing_def Let_def split: if_splits)
  from smoothed_points_cell [of p ?df ?n] assms(2) out
  obtain i j where ij: "i < ?n - 1" "j < ?n - 1"
      and p: "prob p = smoothed_probs ?df ?n ! i ! j" "0 < prob p"
    by blast
  have cell: "avg_probs ?df ?n ! i' ! j' \<in> ?A" if "i' < ?n - 1" "j' < ?n - 1" for i' j'
  proof -
    have "avg_probs ?df ?n ! i' \<in> set (avg_probs ?df ?n)"
      using that by (simp add: length_avg_probs)
    moreover have "avg_probs ?df ?n ! i' ! j' \<in> set (avg_probs ?df ?n ! i')"
      using that by (simp add: length_avg_probs_row)
    ultimately show ?thesis by auto
  qed
  have "\<forall>i' < ?n - 1. \<forall>j' < ?n - 1.
          Min ?A \<le> avg_probs ?df ?n ! i' ! j' \<and> avg_probs ?df ?n ! i' ! j' \<le> Max ?A"
    using cell by simp
  from smoothed_probs_bounds [OF this ij] p
  have a: "prob p \<le> Max ?A" by simp
  have b: "0 < prob p \<and> prob p \<le> 1" if u: "\<forall>r \<in> set ?df. 0 \<le> prob r \<and> prob r \<le> 1"
  proof -
    have "\<forall>i' < ?n - 1. \<forall>j' < ?n - 1.
          0 \<le> avg_probs ?df ?n ! i' ! j' \<and> avg_probs ?df ?n ! i' ! j' \<le> 1"
      using avg_probs_unit [OF u] by blast
    from smoothed_probs_bounds [OF this ij] p show ?thesis by simp
  qed
  from a b show ?thesis by blast
qed

theorem smoothing_convex_witness:
  "apply_smoothing single_raw 2 = Inr [\<lparr>lat = 1, lon = 2, prob = 1 / 2\<rparr>]
   \<and> \<lparr>lat = 1, lon = 2, prob = 1 / 2\<rparr> \<in> set [\<lparr>lat = 1, lon = 2, prob = 1 / 2\<rparr>]
   \<and> Max (set (concat (avg_probs (coerce single_raw) (nat 2)))) = 1 / 2
   \<and> prob \<lparr>lat = 1, lon = 2, prob = 1 / 2\<rparr>
        \<le> Max (set (concat (avg_probs (coerce single_raw) (nat 2))))
   \<and> 0 \<le> prob (hd (coerce single_raw)) \<and> prob (hd (coerce single_raw)) \<le> 1
   \<and> (0::real) < prob \<lparr>lat = 1, lon = 2, prob = 1 / 2\<rparr>
   \<and> prob \<lparr>lat = 1, lon = 2, prob = 1 / 2\<rparr> \<le> (1::real)"
proof -
  have h: "apply_smoothing single_raw 2 = Inr [\<lparr>lat = 1, lon = 2, prob = 1 / 2\<rparr>]"
    by (simp add: apply_smoothing_def coerce_single_raw smoothed_single) (simp add: single_sample_def)
  have m: "\<lparr>lat = 1, lon = 2, prob = 1 / 2\<rparr> \<in> set [\<lparr>lat = 1, lon = 2, prob = 1 / 2\<rparr>]"
    by simp
  have e: "Max (set (concat (avg_probs (coerce single_raw) (nat 2)))) = 1 / 2"
    by (simp add: coerce_single_raw avg_probs_single)
  have u: "\<forall>r \<in> set (coerce single_raw). 0 \<le> prob r \<and> prob r \<le> 1"
    by (simp add: coerce_single_raw single_sample_def)
  from smoothing_convex [OF h m] u h m e show ?thesis
    by (simp add: coerce_single_raw single_sample_def)
qed

end
